theory Spec2Isabelle
  imports Complex_Main "HOL-Library.Multiset"
begin

section \<open>Pager: \<open>PaginationView\<close>\<close>

text \<open>
  The view object of \<open>src/app.py\<close> (class \<open>PaginationView\<close>), with the fields its
  constructor sets and the four \<open>disabled\<close> flags that \<open>update_buttons\<close> writes on the
  buttons. Python integers are \<open>int\<close>. The records shown are left polymorphic: the
  pager only slices them.
\<close>

record 'a PaginationView =
  data :: "'a list"
  title :: string
  user_id :: int
  profile_url :: "string option"
  is_ranking :: bool
  current_page :: int
  per_page :: int
  total_pages :: int
  prev_disabled :: bool
  prev_five_disabled :: bool
  next_five_disabled :: bool
  next_disabled :: bool

text \<open>
  What \<open>get_embed\<close> renders: the title, the optional profile link, the numbers of the
  line \<open>Page n/m\<close> and the records of the window \<open>data[start:end]\<close>.
\<close>

record 'a page_embed =
  embed_title :: string
  embed_profile :: "string option"
  embed_page :: int
  embed_total :: int
  embed_items :: "'a list"

text \<open>
  The calls a handler makes on \<open>interaction.response\<close>, in order. In each button
  handler the call that may come second is the handler's last statement, so the log
  of calls determines everything the handler did before it.
\<close>

datatype 'a response_call = Defer | EditMessage "'a page_embed"

text \<open>Python's slice \<open>xs[i:j]\<close>: negative bounds count from the end, all bounds are clipped.\<close>

definition slice_bound :: "int \<Rightarrow> int \<Rightarrow> int" where
  "slice_bound n i = (if i < 0 then max 0 (i + n) else min i n)"

definition slice :: "'a list \<Rightarrow> int \<Rightarrow> int \<Rightarrow> 'a list" where
  "slice xs i j =
     (let n = int (length xs); lo = slice_bound n i; hi = slice_bound n j
      in take (nat (hi - lo)) (drop (nat lo) xs))"

definition update_buttons :: "'a PaginationView \<Rightarrow> 'a PaginationView" where
  "update_buttons self =
     self\<lparr>prev_disabled := (current_page self = 0),
          prev_five_disabled := (current_page self = 0),
          next_five_disabled := (current_page self \<ge> total_pages self - 1),
          next_disabled := (current_page self \<ge> total_pages self - 1)\<rparr>"

definition init_view ::
  "'a list \<Rightarrow> string \<Rightarrow> int \<Rightarrow> string option \<Rightarrow> bool \<Rightarrow> 'a PaginationView" where
  "init_view d t uid url ranking =
     update_buttons
       \<lparr>data = d, title = t, user_id = uid, profile_url = url, is_ranking = ranking,
        current_page = 0, per_page = 10,
        total_pages = (int (length d) + 10 - 1) div 10,
        prev_disabled = False, prev_five_disabled = False,
        next_five_disabled = False, next_disabled = False\<rparr>"

definition get_embed :: "'a PaginationView \<Rightarrow> 'a page_embed" where
  "get_embed self =
     (let start = current_page self * per_page self;
          end = start + per_page self
      in \<lparr>embed_title = title self, embed_profile = profile_url self,
          embed_page = current_page self + 1, embed_total = total_pages self,
          embed_items = slice (data self) start end\<rparr>)"

text \<open>
  The four button handlers. Each takes the view and \<open>interaction.user.id\<close> and returns
  the view as the handler leaves it, with the response calls it made.
  \<open>prev_button\<close> and \<open>next_button\<close> answer a foreign user with \<open>defer()\<close> and then go
  on (there is no \<open>return\<close> in the source); \<open>prev_five_button\<close> and
  \<open>next_five_button\<close> return after it.
\<close>

definition prev_button ::
  "'a PaginationView \<Rightarrow> int \<Rightarrow> 'a PaginationView \<times> 'a response_call list" where
  "prev_button self uid =
     (let calls = (if uid \<noteq> user_id self then [Defer] else [])
      in if current_page self > 0 then
           (let self' = update_buttons (self\<lparr>current_page := current_page self - 1\<rparr>)
            in (self', calls @ [EditMessage (get_embed self')]))
         else (self, calls @ [Defer]))"

definition prev_five_button ::
  "'a PaginationView \<Rightarrow> int \<Rightarrow> 'a PaginationView \<times> 'a response_call list" where
  "prev_five_button self uid =
     (if uid \<noteq> user_id self then (self, [Defer])
      else if current_page self > 0 then
        (let self' = update_buttons (self\<lparr>current_page := max 0 (current_page self - 5)\<rparr>)
         in (self', [EditMessage (get_embed self')]))
      else (self, [Defer]))"

definition next_five_button ::
  "'a PaginationView \<Rightarrow> int \<Rightarrow> 'a PaginationView \<times> 'a response_call list" where
  "next_five_button self uid =
     (if uid \<noteq> user_id self then (self, [Defer])
      else if current_page self < total_pages self - 1 then
        (let self' = update_buttons
               (self\<lparr>current_page := min (total_pages self - 1) (current_page self + 5)\<rparr>)
         in (self', [EditMessage (get_embed self')]))
      else (self, [Defer]))"

definition next_button ::
  "'a PaginationView \<Rightarrow> int \<Rightarrow> 'a PaginationView \<times> 'a response_call list" where
  "next_button self uid =
     (let calls = (if uid \<noteq> user_id self then [Defer] else [])
      in if current_page self < total_pages self - 1 then
           (let self' = update_buttons (self\<lparr>current_page := current_page self + 1\<rparr>)
            in (self', calls @ [EditMessage (get_embed self')]))
         else (self, calls @ [Defer]))"

text \<open>
  The button pressed, and the handler it runs. A view over 23 records owned by user 1,
  as \<open>seasonal\<close> or \<open>list\<close> builds it, serves as the running example.
\<close>

datatype button = Prev | PrevFive | NextFive | Next

fun press ::
  "button \<Rightarrow> 'a PaginationView \<Rightarrow> int \<Rightarrow> 'a PaginationView \<times> 'a response_call list" where
  "press Prev self uid = prev_button self uid"
| "press PrevFive self uid = prev_five_button self uid"
| "press NextFive self uid = next_five_button self uid"
| "press Next self uid = next_button self uid"

definition view23 :: "nat PaginationView" where
  "view23 = init_view [0..<23] ''Top'' 1 None True"

definition view23_last :: "nat PaginationView" where
  "view23_last = fst (press NextFive view23 1)"

section \<open>Related-anime field of \<open>format_anime_embed\<close>\<close>

text \<open>
  Python's \<open>len\<close> counts code points, and the notice text starts with the horizontal
  ellipsis U+2026, which is no 8-bit character. Text whose length matters is therefore a
  list of code points; \<open>py\<close> reads an ASCII literal as such a list.
\<close>

type_synonym pystr = "nat list"

definition py :: "string \<Rightarrow> pystr" where
  "py s = map of_char s"

text \<open>
  \<open>str(n)\<close> for an integer, as the f-string formats \<open>r['node']['id']\<close>.
\<close>

fun digits :: "nat \<Rightarrow> pystr" where
  "digits n = (if n < 10 then [48 + n] else digits (n div 10) @ [48 + n mod 10])"

definition str_int :: "int \<Rightarrow> pystr" where
  "str_int i = (if i < 0 then 45 # digits (nat (- i)) else digits (nat i))"

text \<open>
  \<open>s.replace('_', ' ')\<close> and \<open>s.title()\<close>. \<open>title\<close> upper-cases a letter that follows
  a character without case and lower-cases a letter that follows a letter. The model
  cases the ASCII letters, which are all the letters in the relation types of the
  upstream (\<open>side_story\<close>, \<open>sequel\<close>); it keeps every other code point and counts it as
  without case. Python also cases letters beyond ASCII: on a text with such a letter
  \<open>title_case\<close> is not Python's \<open>title\<close>, and nothing below is stated of such a text.
\<close>

definition replace_underscore :: "pystr \<Rightarrow> pystr" where
  "replace_underscore s = map (\<lambda>c. if c = 95 then 32 else c) s"

fun title_from :: "bool \<Rightarrow> pystr \<Rightarrow> pystr" where
  "title_from prev_cased [] = []"
| "title_from prev_cased (c # cs) =
     (if 97 \<le> c \<and> c \<le> 122 then (if prev_cased then c else c - 32) # title_from True cs
      else if 65 \<le> c \<and> c \<le> 90 then (if prev_cased then c + 32 else c) # title_from True cs
      else c # title_from False cs)"

definition title_case :: "pystr \<Rightarrow> pystr" where
  "title_case s = title_from False s"

text \<open>One entry of \<open>related_anime\<close>: \<open>r['node']['title']\<close>, \<open>r['node']['id']\<close>, \<open>r['relation_type']\<close>.\<close>

record related =
  related_title :: pystr
  related_id :: int
  relation_type :: pystr

definition MAX_FIELD_LEN :: nat where
  "MAX_FIELD_LEN = 1024"

definition FOOTER_TEXT :: pystr where
  "FOOTER_TEXT = 8230 # py ''more related anime available on the MyAnimeList page.''"

definition related_line :: "related \<Rightarrow> pystr" where
  "related_line r =
     py ''['' @ related_title r @ py ''](https://myanimelist.net/anime/'' @ str_int (related_id r)
     @ py '') ('' @ title_case (replace_underscore (relation_type r)) @ py '', ID: ''
     @ str_int (related_id r) @ py '')''"

text \<open>
  The loop over \<open>related\<close>, with the list \<open>lines\<close> built so far; the \<open>break\<close> after
  the notice ends the recursion.
\<close>

fun related_loop :: "related list \<Rightarrow> pystr list \<Rightarrow> pystr list" where
  "related_loop [] lines = lines"
| "related_loop (r # rs) lines =
     (let line = related_line r;
          projected_length = (\<Sum>l\<leftarrow>lines. length l + 1) + length line
      in if projected_length + length FOOTER_TEXT > MAX_FIELD_LEN
         then lines @ [FOOTER_TEXT]
         else related_loop rs (lines @ [line]))"

text \<open>\<open>"\n".join(lines)\<close>: the newline is code point 10.\<close>

fun join_lines :: "pystr list \<Rightarrow> pystr" where
  "join_lines [] = []"
| "join_lines [l] = l"
| "join_lines (l # ls) = l @ 10 # join_lines ls"

definition related_str :: "related list \<Rightarrow> pystr" where
  "related_str rel =
     (let lines = related_loop rel [] in if lines \<noteq> [] then join_lines lines else py ''None'')"

text \<open>
  Eleven related entries of one franchise, with the identifiers 11 to 21: nine sequels
  whose titles have 43 characters, a tenth whose title has 44, and a side story.
\<close>

definition franchise :: "related list" where
  "franchise =
     map (\<lambda>n. \<lparr>related_title = replicate 43 88, related_id = int n,
               relation_type = py ''sequel''\<rparr>) [11..<20]
     @ [\<lparr>related_title = replicate 44 88, related_id = 20, relation_type = py ''sequel''\<rparr>,
        \<lparr>related_title = py ''Specials'', related_id = 21, relation_type = py ''side_story''\<rparr>]"

section \<open>Catalogue records and the upstream\<close>

text \<open>
  A \<open>node\<close> is the dictionary of one anime as the upstream sends it; every key may be
  missing, and \<open>{}\<close> is the node with no key. The games read \<open>mean\<close> only; identifier,
  titles and picture are what the replies display. A rating is a Python float or
  integer, that is a rational number: comparisons of floats are exact, and the one
  operation that rounds, the subtraction in \<open>guess\<close>, rounds explicitly (see there).
  An \<open>item\<close> is one element of a response's \<open>data\<close> list.
\<close>

record node =
  node_id :: "int option"
  node_title :: "string option"
  en_title :: "string option"
  mean :: "rat option"
  main_picture :: "string option"

definition empty_node :: node where
  "empty_node = \<lparr>node_id = None, node_title = None, en_title = None, mean = None,
                  main_picture = None\<rparr>"

record item =
  item_node :: "node option"
  item_rank :: "int option"

text \<open>\<open>item.get("node", {})\<close> and \<open>anime.get("mean", 0)\<close>.\<close>

definition get_node :: "item \<Rightarrow> node" where
  "get_node it = (case item_node it of None \<Rightarrow> empty_node | Some n \<Rightarrow> n)"

definition get_mean :: "node \<Rightarrow> rat" where
  "get_mean n = (case mean n of None \<Rightarrow> 0 | Some m \<Rightarrow> m)"

text \<open>
  A request to the ranking endpoint is its \<open>ranking_type\<close>, \<open>limit\<close> and \<open>offset\<close>. The
  upstream is a parameter of the model: it answers a request with the \<open>data\<close> list, or
  with \<open>None\<close> for a status other than 200, an empty body or a body without \<open>data\<close>
  (the three cases the callers treat alike). Within one command no request is issued
  twice (the offsets differ), so a function of the request loses no generality.
\<close>

type_synonym request = "string \<times> int \<times> int"

type_synonym upstream = "request \<Rightarrow> item list option"

definition get_top_anime_by_rank :: "int \<Rightarrow> string \<Rightarrow> int \<Rightarrow> request" where
  "get_top_anime_by_rank limit ranking_type offset = (ranking_type, min limit 500, offset)"

datatype py_error = UnboundLocalError | IndexError

text \<open>
  \<open>xs.pop(i)\<close>: the element at index \<open>i\<close> and the list without it; a negative index
  counts from the end, an index out of range raises \<open>IndexError\<close> (\<open>None\<close> here).
\<close>

definition pop :: "'a list \<Rightarrow> int \<Rightarrow> ('a \<times> 'a list) option" where
  "pop xs i =
     (let n = int (length xs); j = (if i < 0 then i + n else i)
      in if 0 \<le> j \<and> j < n
         then Some (xs ! nat j, take (nat j) xs @ drop (Suc (nat j)) xs)
         else None)"

text \<open>
  The batch loop shared by \<open>guessgame\<close> and \<open>higherlower\<close>
  (\<open>while remaining > 0: ...\<close>), with the records gathered so far and the requests
  issued so far.
\<close>

function fetch_pool ::
  "upstream \<Rightarrow> string \<Rightarrow> int \<Rightarrow> int \<Rightarrow> item list \<Rightarrow> request list
     \<Rightarrow> item list \<times> request list" where
  "fetch_pool api ranking_type remaining offset all_anime issued =
     (if remaining > 0 then
        (case api (get_top_anime_by_rank (min remaining 500) ranking_type offset) of
           None \<Rightarrow>
             (all_anime,
              issued @ [get_top_anime_by_rank (min remaining 500) ranking_type offset])
         | Some d \<Rightarrow>
             if int (length d) < min remaining 500
             then (all_anime @ d,
                   issued @ [get_top_anime_by_rank (min remaining 500) ranking_type offset])
             else fetch_pool api ranking_type (remaining - min remaining 500)
                    (offset + min remaining 500) (all_anime @ d)
                    (issued @ [get_top_anime_by_rank (min remaining 500) ranking_type offset]))
      else (all_anime, issued))"
  by pat_completeness auto
termination
  by (relation "measure (\<lambda>(api, ranking_type, remaining, offset, all_anime, issued).
        nat remaining)") auto

declare fetch_pool.simps [simp del]

text \<open>\<open>s.lower()\<close> on the ASCII letters; other characters are kept.\<close>

definition lower_char :: "char \<Rightarrow> char" where
  "lower_char c =
     (let n = (of_char c :: nat) in if 65 \<le> n \<and> n \<le> 90 then char_of (n + 32) else c)"

definition lower :: "string \<Rightarrow> string" where
  "lower s = map lower_char s"

definition valid_types :: "string list" where
  "valid_types = [''bypopularity'', ''airing'', ''movie'', ''favorite'']"

text \<open>
  \<open>random.randint(lo, hi)\<close> is a parameter as well, a function of its bounds: in the
  lifetime of one session the pool shrinks with every draw, so no bounds recur.
\<close>

type_synonym randint = "int \<Rightarrow> int \<Rightarrow> int"

section \<open>Guess-The-Rating: \<open>guessgame\<close> and \<open>guess\<close>\<close>

text \<open>
  The session dictionaries. Both games keep \<open>current_anime\<close>, \<open>anime_pool\<close> and
  \<open>score\<close>; the guessing game adds \<open>difficulty\<close>, Higher/Lower adds \<open>next_anime\<close>.
  \<open>user_guess_sessions\<close> and \<open>user_higher_lower_sessions\<close> map a user identifier to its
  session. The list stored under \<open>anime_pool\<close> is the one the handlers pop from, so
  each pop is written back to the session.
\<close>

record session =
  current_anime :: node
  anime_pool :: "item list"
  score :: int

record guess_session = session +
  difficulty :: string

record higher_lower_session = session +
  next_anime :: node

type_synonym guess_sessions = "int \<rightharpoonup> guess_session"

type_synonym higher_lower_sessions = "int \<rightharpoonup> higher_lower_session"

text \<open>
  What a command sends. The messages carry the values the embeds display.
  \<open>Started\<close>: the opening anime and the margin of the instructions.
  \<open>Correct\<close>: guess, actual rating, difficulty, current score, next anime.
  \<open>CorrectFinal\<close> and \<open>Wrong\<close>: guess, actual rating, difficulty, final score.
\<close>

datatype start_reply =
    InvalidDifficulty string
  | LimitOutOfRange
  | InvalidRankingType string
  | CouldNotStart
  | Started node rat

datatype guess_reply =
    StartGameFirst
  | MissingRating
  | RatingOutOfRange
  | Correct rat rat string int node
  | CorrectFinal rat rat string int
  | Wrong rat rat string int

text \<open>
  Floats. A finite float is a rational number, and \<open><\<close>, \<open><=\<close> on floats compare these
  numbers exactly. An arithmetic operation returns the exact result rounded to a float;
  the commands take this rounding as the parameter \<open>rnd\<close>, and Python's own rounding is
  \<open>py_float\<close> (section Python floats). The literals \<open>0.5\<close> and \<open>0.25\<close> are floats
  exactly; \<open>0.1\<close> is the float next to one tenth, \<open>rnd (1/10)\<close>.
\<close>

type_synonym rounding = "rat \<Rightarrow> rat"

text \<open>
  The three \<open>if\<close> statements of \<open>guess\<close> that set \<open>margin\<close>; with no match the name
  stays unbound (\<open>None\<close>).
\<close>

definition margin_of :: "rounding \<Rightarrow> string \<Rightarrow> rat option" where
  "margin_of rnd d =
     (let margin = None;
          margin = (if d = ''easy'' then Some (1 / 2) else margin);
          margin = (if d = ''medium'' then Some (1 / 4) else margin);
          margin = (if d = ''hard'' then Some (rnd (1 / 10)) else margin)
      in margin)"

text \<open>The test \<open>abs(guess_value - actual_rating) <= margin\<close>.\<close>

definition within_margin :: "rounding \<Rightarrow> rat \<Rightarrow> rat \<Rightarrow> rat \<Rightarrow> bool" where
  "within_margin rnd guess_value actual_rating margin =
     (\<bar>rnd (guess_value - actual_rating)\<bar> \<le> margin)"

text \<open>
  \<open>guessgame\<close>: the validated start. The result is the session store, the message and
  the requests issued to the upstream, or the exception raised.
\<close>

definition guessgame ::
  "upstream \<Rightarrow> rounding \<Rightarrow> randint \<Rightarrow> guess_sessions \<Rightarrow> int \<Rightarrow> string \<Rightarrow> int \<Rightarrow> string
     \<Rightarrow> py_error + (guess_sessions \<times> start_reply \<times> request list)" where
  "guessgame api rnd rand sessions uid difficulty0 limit ranking_type0 =
     (let difficulty = lower difficulty0 in
      if difficulty \<notin> set [''easy'', ''medium'', ''hard'']
      then Inr (sessions, InvalidDifficulty difficulty, [])
      else if limit < 1 \<or> limit > 2500 then Inr (sessions, LimitOutOfRange, [])
      else
        let ranking_type = lower ranking_type0;
            ranking_type = (if ranking_type = ''popularity'' then ''bypopularity''
                            else ranking_type)
        in if ranking_type \<notin> set valid_types
           then Inr (sessions, InvalidRankingType ranking_type, [])
           else
             let fetched = fetch_pool api ranking_type limit 0 [] [];
                 all_anime = fst fetched
             in if all_anime = [] then Inr (sessions, CouldNotStart, snd fetched)
                else
                  (case pop all_anime (rand 0 (int (length all_anime) - 1)) of
                     None \<Rightarrow> Inl IndexError
                   | Some (it, pool) \<Rightarrow>
                       let margin = 1 / 4;
                           margin = (if difficulty = ''easy'' then 1 / 2 else margin);
                           margin = (if difficulty = ''hard'' then rnd (1 / 10) else margin)
                       in Inr (sessions(uid \<mapsto>
                                 \<lparr>current_anime = get_node it, anime_pool = pool, score = 0,
                                  difficulty = difficulty\<rparr>),
                               Started (get_node it) margin, snd fetched)))"

text \<open>
  \<open>guess\<close>. The parameter is a float (\<open>None\<close> when missing); \<open>float(guess_value)\<close>
  leaves a float as it is.
\<close>

definition guess ::
  "rounding \<Rightarrow> randint \<Rightarrow> guess_sessions \<Rightarrow> int \<Rightarrow> rat option
     \<Rightarrow> py_error + (guess_sessions \<times> guess_reply)" where
  "guess rnd rand sessions uid guess_value =
     (case sessions uid of
        None \<Rightarrow> Inr (sessions, StartGameFirst)
      | Some session \<Rightarrow>
          (case guess_value of
             None \<Rightarrow> Inr (sessions, MissingRating)
           | Some g \<Rightarrow>
               if g < 0 \<or> g > 10 then Inr (sessions, RatingOutOfRange)
               else
                 let actual_rating = get_mean (current_anime session) in
                 (case margin_of rnd (difficulty session) of
                    None \<Rightarrow> Inl UnboundLocalError
                  | Some margin \<Rightarrow>
                      if within_margin rnd g actual_rating margin then
                        let session = session\<lparr>score := score session + 1\<rparr> in
                        if anime_pool session \<noteq> [] then
                          (case pop (anime_pool session)
                                  (rand 0 (int (length (anime_pool session)) - 1)) of
                             None \<Rightarrow> Inl IndexError
                           | Some (it, pool) \<Rightarrow>
                               Inr (sessions(uid \<mapsto>
                                      session\<lparr>anime_pool := pool,
                                              current_anime := get_node it\<rparr>),
                                    Correct g actual_rating (difficulty session)
                                      (score session) (get_node it)))
                        else
                          Inr (sessions(uid := None),
                               CorrectFinal g actual_rating (difficulty session)
                                 (score session))
                      else
                        Inr (sessions(uid := None),
                             Wrong g actual_rating (difficulty session) (score session)))))"

section \<open>Higher/Lower: \<open>higherlower\<close> and \<open>_process_higher_lower_guess\<close>\<close>

text \<open>
  \<open>HLStarted\<close>: current and next anime. \<open>HLCorrect\<close>: streak, new current anime, its
  rating, new next anime. \<open>HLCorrectFinal\<close>: final streak, final anime, its rating.
  \<open>HLWrong\<close>: previous anime and rating, final anime and rating, final streak.
\<close>

datatype hl_start_reply =
    HLInvalidRankingType string
  | HLInvalidLimit "int option"
  | HLCouldNotStart
  | HLStarted node node

datatype hl_reply =
    HLStartGameFirst
  | HLCorrect int node rat node
  | HLCorrectFinal int node rat
  | HLWrong node rat node rat int

text \<open>
  \<open>higherlower\<close>. \<open>limit\<close> is optional; \<open>if not limit\<close> holds for \<open>None\<close> and for \<open>0\<close>.
\<close>

definition higherlower ::
  "upstream \<Rightarrow> randint \<Rightarrow> higher_lower_sessions \<Rightarrow> int \<Rightarrow> int option \<Rightarrow> string
     \<Rightarrow> py_error + (higher_lower_sessions \<times> hl_start_reply \<times> request list)" where
  "higherlower api rand sessions uid limit ranking_type0 =
     (let ranking_type = lower ranking_type0;
          limit_value = (case limit of None \<Rightarrow> 500 | Some l \<Rightarrow> if l = 0 then 500 else l);
          ranking_type = (if ranking_type = ''popularity'' then ''bypopularity''
                          else ranking_type)
      in if ranking_type \<notin> set valid_types
         then Inr (sessions, HLInvalidRankingType ranking_type, [])
         else if limit_value < 2 \<or> limit_value > 2500
         then Inr (sessions, HLInvalidLimit limit, [])
         else
           let fetched = fetch_pool api ranking_type limit_value 0 [] [];
               all_anime = fst fetched
           in if all_anime = [] \<or> length all_anime < 2
              then Inr (sessions, HLCouldNotStart, snd fetched)
              else
                (case pop all_anime (rand 0 (int (length all_anime) - 1)) of
                   None \<Rightarrow> Inl IndexError
                 | Some (it1, all_anime) \<Rightarrow>
                     (case pop all_anime (rand 0 (int (length all_anime) - 1)) of
                        None \<Rightarrow> Inl IndexError
                      | Some (it2, all_anime) \<Rightarrow>
                          Inr (sessions(uid \<mapsto>
                                 \<lparr>current_anime = get_node it1, anime_pool = all_anime,
                                  score = 0, next_anime = get_node it2\<rparr>),
                               HLStarted (get_node it1) (get_node it2), snd fetched))))"

text \<open>The verdict \<open>is_correct\<close> of a turn.\<close>

definition is_correct :: "string \<Rightarrow> rat \<Rightarrow> rat \<Rightarrow> bool" where
  "is_correct guess_dir next_rating current_rating =
     ((guess_dir = ''higher'' \<and> next_rating \<ge> current_rating)
      \<or> (guess_dir = ''lower'' \<and> next_rating \<le> current_rating))"

definition process_higher_lower_guess ::
  "randint \<Rightarrow> higher_lower_sessions \<Rightarrow> int \<Rightarrow> string
     \<Rightarrow> py_error + (higher_lower_sessions \<times> hl_reply)" where
  "process_higher_lower_guess rand sessions uid guess_dir =
     (case sessions uid of
        None \<Rightarrow> Inr (sessions, HLStartGameFirst)
      | Some session \<Rightarrow>
          let pool = anime_pool session;
              current = current_anime session;
              current_rating = get_mean current;
              nxt = next_anime session;
              next_rating = get_mean nxt
          in if is_correct guess_dir next_rating current_rating then
               let session = session\<lparr>score := score session + 1, current_anime := nxt\<rparr> in
               if pool \<noteq> [] then
                 (case pop pool (rand 0 (int (length pool) - 1)) of
                    None \<Rightarrow> Inl IndexError
                  | Some (it, pool') \<Rightarrow>
                      Inr (sessions(uid \<mapsto>
                             session\<lparr>next_anime := get_node it, anime_pool := pool'\<rparr>),
                           HLCorrect (score session) nxt next_rating (get_node it)))
               else
                 Inr (sessions(uid := None), HLCorrectFinal (score session) nxt next_rating)
             else
               Inr (sessions(uid := None),
                    HLWrong current current_rating nxt next_rating (score session)))"

section \<open>Lifetimes and examples\<close>

text \<open>
  \<open>random.randint(lo, hi)\<close> returns an integer between its bounds.
\<close>

definition randint_ok :: "randint \<Rightarrow> bool" where
  "randint_ok rand = (\<forall>lo hi. lo \<le> hi \<longrightarrow> lo \<le> rand lo hi \<and> rand lo hi \<le> hi)"

text \<open>
  The ranking type as both start commands normalise it before the fetch
  (\<open>lower()\<close>, then \<open>popularity\<close> becomes \<open>bypopularity\<close>), and the pool size
  \<open>higherlower\<close> fetches for its optional \<open>limit\<close>.
\<close>

definition normal_ranking_type :: "string \<Rightarrow> string" where
  "normal_ranking_type ranking_type0 =
     (if lower ranking_type0 = ''popularity'' then ''bypopularity'' else lower ranking_type0)"

definition limit_value_of :: "int option \<Rightarrow> int" where
  "limit_value_of limit = (case limit of None \<Rightarrow> 500 | Some l \<Rightarrow> if l = 0 then 500 else l)"

text \<open>
  The life of a session: the guesses one user submits, one after the other. The run
  returns the store it ends in and the records drawn and presented on the way, in order;
  an exception ends it.
\<close>

fun drawn_by :: "guess_reply \<Rightarrow> node list" where
  "drawn_by (Correct g a d s n) = [n]"
| "drawn_by r = []"

fun play_guess ::
  "rounding \<Rightarrow> randint \<Rightarrow> int \<Rightarrow> rat option list \<Rightarrow> guess_sessions
     \<Rightarrow> py_error + (guess_sessions \<times> node list)" where
  "play_guess rnd rand uid [] sessions = Inr (sessions, [])"
| "play_guess rnd rand uid (g # gs) sessions =
     (case guess rnd rand sessions uid g of
        Inl e \<Rightarrow> Inl e
      | Inr (sessions', reply) \<Rightarrow>
          (case play_guess rnd rand uid gs sessions' of
             Inl e \<Rightarrow> Inl e
           | Inr (sessions'', drawn) \<Rightarrow> Inr (sessions'', drawn_by reply @ drawn)))"

fun hl_drawn_by :: "hl_reply \<Rightarrow> node list" where
  "hl_drawn_by (HLCorrect s c r n) = [n]"
| "hl_drawn_by r = []"

fun play_higher_lower ::
  "randint \<Rightarrow> int \<Rightarrow> string list \<Rightarrow> higher_lower_sessions
     \<Rightarrow> py_error + (higher_lower_sessions \<times> node list)" where
  "play_higher_lower rand uid [] sessions = Inr (sessions, [])"
| "play_higher_lower rand uid (g # gs) sessions =
     (case process_higher_lower_guess rand sessions uid g of
        Inl e \<Rightarrow> Inl e
      | Inr (sessions', reply) \<Rightarrow>
          (case play_higher_lower rand uid gs sessions' of
             Inl e \<Rightarrow> Inl e
           | Inr (sessions'', drawn) \<Rightarrow> Inr (sessions'', hl_drawn_by reply @ drawn)))"

text \<open>The verdict a reply of a Higher/Lower turn announces.\<close>

fun hl_verdict :: "hl_reply \<Rightarrow> bool option" where
  "hl_verdict HLStartGameFirst = None"
| "hl_verdict (HLCorrect s c r n) = Some True"
| "hl_verdict (HLCorrectFinal s c r) = Some True"
| "hl_verdict (HLWrong p pr f fr s) = Some False"

text \<open>
  Examples: three catalogue records with the ratings 8.0, 8.0 and 7.5, upstreams that
  answer every request with the same list, a random source that draws the first
  element, and floats without rounding error.
\<close>

definition anime :: "int \<Rightarrow> rat \<Rightarrow> item" where
  "anime i m =
     \<lparr>item_node = Some \<lparr>node_id = Some i, node_title = Some ''Title'', en_title = None,
                          mean = Some m, main_picture = None\<rparr>,
      item_rank = Some i\<rparr>"

definition upstream_of :: "item list \<Rightarrow> upstream" where
  "upstream_of records = (\<lambda>request. Some records)"

definition no_upstream :: upstream where
  "no_upstream = (\<lambda>request. None)"

definition first_index :: randint where
  "first_index = (\<lambda>lo hi. lo)"

definition exact :: rounding where
  "exact = (\<lambda>x. x)"

text \<open>
  Sessions of user 7. \<open>medium_round\<close>: difficulty medium, an anime rated 7.5 on
  display, score 2, one record left; \<open>medium_last\<close>: the same with the pool used up.
  \<open>tie_round\<close>: a Higher/Lower round whose two records are both rated 8.0, pool used up.
\<close>

definition medium_round :: guess_sessions where
  "medium_round =
     Map.empty(7 \<mapsto> \<lparr>current_anime = get_node (anime 3 (15 / 2)),
                       anime_pool = [anime 1 8], score = 2, difficulty = ''medium''\<rparr>)"

definition medium_last :: guess_sessions where
  "medium_last =
     Map.empty(7 \<mapsto> \<lparr>current_anime = get_node (anime 3 (15 / 2)),
                       anime_pool = [], score = 2, difficulty = ''medium''\<rparr>)"

definition tie_round :: higher_lower_sessions where
  "tie_round =
     Map.empty(7 \<mapsto> \<lparr>current_anime = get_node (anime 1 8), anime_pool = [],
                       score = 4, next_anime = get_node (anime 2 8)\<rparr>)"

text \<open>
  The account of a session's records. \<open>fetched\<close> are the records gathered at the start,
  \<open>presented\<close> those shown to the user so far, in order. In the guessing game the last
  record presented is the current one; in Higher/Lower the last two are the current
  and the next one. Presented records and pool together are the records fetched.
\<close>

definition guess_account :: "node list \<Rightarrow> node list \<Rightarrow> guess_session \<Rightarrow> bool" where
  "guess_account fetched presented s =
     (presented \<noteq> [] \<and> current_anime s = last presented
      \<and> mset (presented @ map get_node (anime_pool s)) = mset fetched
      \<and> difficulty s \<in> set [''easy'', ''medium'', ''hard''])"

definition hl_account :: "node list \<Rightarrow> node list \<Rightarrow> higher_lower_session \<Rightarrow> bool" where
  "hl_account fetched presented s =
     (2 \<le> length presented \<and> next_anime s = last presented
      \<and> current_anime s = last (butlast presented)
      \<and> mset (presented @ map get_node (anime_pool s)) = mset fetched)"

text \<open>
  \<open>three_records\<close>: a ranking of three distinct records. \<open>twice_round\<close>: the session of
  user 7 after a start whose upstream answered with the same record twice.
\<close>

definition three_records :: "item list" where
  "three_records = [anime 1 8, anime 2 8, anime 3 (15 / 2)]"

definition twice_round :: guess_sessions where
  "twice_round =
     Map.empty(7 \<mapsto> \<lparr>current_anime = get_node (anime 1 8), anime_pool = [anime 1 8],
                       score = 0, difficulty = ''easy''\<rparr>)"

text \<open>
  The sessions of user 7 after \<open>guessgame\<close> and after \<open>higherlower\<close> have started on
  \<open>three_records\<close> with the first element drawn each time.
\<close>

definition three_round :: guess_sessions where
  "three_round =
     Map.empty(7 \<mapsto> \<lparr>current_anime = get_node (anime 1 8),
                       anime_pool = [anime 2 8, anime 3 (15 / 2)], score = 0,
                       difficulty = ''medium''\<rparr>)"

definition three_hl_round :: higher_lower_sessions where
  "three_hl_round =
     Map.empty(7 \<mapsto> \<lparr>current_anime = get_node (anime 1 8),
                       anime_pool = [anime 3 (15 / 2)], score = 0,
                       next_anime = get_node (anime 2 8)\<rparr>)"

section \<open>Python floats\<close>

text \<open>
  A Python float is an IEEE-754 binary64 number. \<open>py_float x\<close> is the float next to the
  rational \<open>x\<close>, rounding to nearest with ties to even: a significand of 53 bits, or a
  multiple of \<open>2^-1074\<close> below \<open>2^-1022\<close>. It is what a decimal literal or a JSON number
  denotes and how every arithmetic operation rounds its exact result. Overflow to
  infinity is left out: the commands compare guesses and ratings within \<open>[0, 10]\<close>.
\<close>

fun bit_length :: "nat \<Rightarrow> nat" where
  "bit_length n = (if n = 0 then 0 else Suc (bit_length (n div 2)))"

text \<open>\<open>floor_log2 x\<close> is the integer \<open>e\<close> with \<open>2^e \<le> x < 2^(e+1)\<close>, for positive \<open>x\<close>.\<close>

definition floor_log2 :: "rat \<Rightarrow> int" where
  "floor_log2 x =
     (if 1 \<le> x then int (bit_length (nat \<lfloor>x\<rfloor>)) - 1
      else - int (bit_length (nat (\<lceil>1 / x\<rceil> - 1))))"

definition pow2 :: "int \<Rightarrow> rat" where
  "pow2 k = (if 0 \<le> k then 2 ^ nat k else 1 / 2 ^ nat (- k))"

definition round_half_even :: "rat \<Rightarrow> int" where
  "round_half_even q =
     (let f = \<lfloor>q\<rfloor>; r = q - of_int f
      in if r < 1 / 2 then f else if r > 1 / 2 then f + 1
         else if even f then f else f + 1)"

definition py_float :: "rat \<Rightarrow> rat" where
  "py_float x =
     (if x = 0 then 0
      else let e = max (floor_log2 \<bar>x\<bar>) (- 1022); ulp = pow2 (e - 52)
           in sgn x * of_int (round_half_even (\<bar>x\<bar> / ulp)) * ulp)"

text \<open>The verdict a reply of \<open>guess\<close> announces.\<close>

fun guess_verdict :: "guess_reply \<Rightarrow> bool option" where
  "guess_verdict (Correct g a d s n) = Some True"
| "guess_verdict (CorrectFinal g a d s) = Some True"
| "guess_verdict (Wrong g a d s) = Some False"
| "guess_verdict r = None"


definition hard_round :: guess_sessions where
  "hard_round =
     Map.empty(7 \<mapsto> \<lparr>current_anime = get_node (anime 5 (py_float (41 / 5))),
                       anime_pool = [anime 1 8], score = 0, difficulty = ''hard''\<rparr>)"


definition strict_round :: higher_lower_sessions where
  "strict_round =
     Map.empty(7 \<mapsto> \<lparr>current_anime = get_node (anime 1 8), anime_pool = [anime 2 8],
                       score = 1, next_anime = get_node (anime 3 (15 / 2))\<rparr>)"

section \<open>The pager's transitions\<close>

lemma prev_five_button_foreign:
  "uid \<noteq> user_id self \<Longrightarrow> prev_five_button self uid = (self, [Defer])"
  by (simp add: prev_five_button_def)

lemma next_five_button_foreign:
  "uid \<noteq> user_id self \<Longrightarrow> next_five_button self uid = (self, [Defer])"
  by (simp add: next_five_button_def)

lemma current_page_update_buttons [simp]:
  "current_page (update_buttons v) = current_page v"
  by (simp add: update_buttons_def)

lemma total_pages_update_buttons [simp]:
  "total_pages (update_buttons v) = total_pages v"
  by (simp add: update_buttons_def)

lemma user_id_update_buttons [simp]:
  "user_id (update_buttons v) = user_id v"
  by (simp add: update_buttons_def)

lemma view23_fields:
  "user_id view23 = 1" "current_page view23 = 0" "total_pages view23 = 3"
  by (simp_all add: view23_def init_view_def)

lemma view23_last_fields:
  "user_id view23_last = 1" "current_page view23_last = 2" "total_pages view23_last = 3"
  by (simp_all add: view23_last_def view23_fields next_five_button_def Let_def)

text \<open>
  Claim C1 says that an interaction by a user other than the session's originating user
  changes nothing, for all four transitions. \<open>prev_five_button\<close> and \<open>next_five_button\<close>
  do leave the view alone (the two lemmas above), but \<open>prev_button\<close> and \<open>next_button\<close>
  do not return after the acknowledgment: on the view of user 1 over 23 records, user 2
  turns the page from 0 to 1 with \<open>Next\<close> (the handler calls \<open>defer\<close>, sets the
  page, then calls \<open>edit_message\<close>) and back to 0 with \<open>Previous\<close>.
\<close>

theorem foreign_user_turns_page:
  "user_id view23 = 1 \<and> current_page view23 = 0
   \<and> current_page (fst (next_button view23 2)) = 1
   \<and> snd (next_button view23 2)
       = [Defer, EditMessage (get_embed (fst (next_button view23 2)))]
   \<and> current_page (fst (prev_button (fst (next_button view23 2)) 2)) = 0"
  by (simp add: view23_fields next_button_def prev_button_def Let_def)

text \<open>
  Claim C7: from a page within \<open>[0, total_pages - 1]\<close>, each button pressed by the
  originating user gives the page the claim names (\<open>prev\<close> subtracts 1 and \<open>prevFive\<close>
  subtracts 5, never below 0; \<open>nextFive\<close> adds 5 and \<open>next\<close> adds 1, never above
  \<open>total_pages - 1\<close>); the page stays within the bounds, the number of pages stays, and
  the handler answers the interaction exactly once, so no call is refused.
\<close>

theorem owner_press_clamps:
  assumes "0 \<le> current_page self" and "current_page self \<le> total_pages self - 1"
  shows "current_page (fst (press Prev self (user_id self))) = max 0 (current_page self - 1)
    \<and> current_page (fst (press PrevFive self (user_id self))) = max 0 (current_page self - 5)
    \<and> current_page (fst (press NextFive self (user_id self)))
        = min (total_pages self - 1) (current_page self + 5)
    \<and> current_page (fst (press Next self (user_id self)))
        = min (total_pages self - 1) (current_page self + 1)
    \<and> (\<forall>b. 0 \<le> current_page (fst (press b self (user_id self)))
          \<and> current_page (fst (press b self (user_id self))) \<le> total_pages self - 1
          \<and> total_pages (fst (press b self (user_id self))) = total_pages self
          \<and> length (snd (press b self (user_id self))) = 1)"
proof -
  have each: "0 \<le> current_page (fst (press b self (user_id self)))
          \<and> current_page (fst (press b self (user_id self))) \<le> total_pages self - 1
          \<and> total_pages (fst (press b self (user_id self))) = total_pages self
          \<and> length (snd (press b self (user_id self))) = 1" for b
    using assms
    by (cases b)
      (auto simp add: prev_button_def prev_five_button_def next_five_button_def
        next_button_def Let_def)
  from assms show ?thesis
    using each
    by (simp add: prev_button_def prev_five_button_def next_five_button_def
        next_button_def Let_def)
qed

theorem owner_press_clamps_witness:
  "0 \<le> current_page view23_last \<and> current_page view23_last \<le> total_pages view23_last - 1
   \<and> current_page (fst (press NextFive view23_last 1)) = 2
   \<and> current_page (fst (press Next view23_last 1)) = 2
   \<and> current_page (fst (press PrevFive view23_last 1)) = 0
   \<and> current_page (fst (press PrevFive view23 1)) = 0"
  using owner_press_clamps [of view23_last] owner_press_clamps [of view23]
  by (simp add: view23_last_fields view23_fields)

section \<open>The related-anime field\<close>

text \<open>
  Claim C2 says that the related-anime text never has more than 1024 characters. The
  loop budgets the newline of every line it keeps, but not the newline in front of the
  notice: after ten lines of \<open>franchise\<close> that fill 970 characters, the eleventh entry is
  replaced by the notice, and the text has 970 + 1 + 54 = 1025 characters.
\<close>

theorem related_str_over_budget:
  "length (related_str franchise) = 1025 \<and> MAX_FIELD_LEN = 1024"
  by code_simp

section \<open>The games, turn by turn\<close>

lemma pop_in_range:
  assumes "0 \<le> i" and "i < int (length xs)"
  shows "pop xs i = Some (xs ! nat i, take (nat i) xs @ drop (Suc (nat i)) xs)"
  using assms by (simp add: pop_def Let_def)

lemma pop_randint:
  assumes "randint_ok rand" and "xs \<noteq> []"
  shows "\<exists>x ys. pop xs (rand 0 (int (length xs) - 1)) = Some (x, ys)"
proof -
  have "(0::int) \<le> int (length xs) - 1" using assms(2) by (cases xs) simp_all
  with assms(1) have "0 \<le> rand 0 (int (length xs) - 1)"
    and "rand 0 (int (length xs) - 1) \<le> int (length xs) - 1"
    unfolding randint_ok_def by blast+
  then show ?thesis by (simp add: pop_in_range)
qed

lemma randint_ok_first_index:
  "randint_ok first_index"
  by (simp add: randint_ok_def first_index_def)

lemma margin_of_table:
  "margin_of rnd ''easy'' = Some (1 / 2)"
  "margin_of rnd ''medium'' = Some (1 / 4)"
  "margin_of rnd ''hard'' = Some (rnd (1 / 10))"
  by (simp_all add: margin_of_def)

lemma guess_no_session:
  "sessions uid = None \<Longrightarrow> guess rnd rand sessions uid g = Inr (sessions, StartGameFirst)"
  by (simp add: guess_def)


lemma guess_correct_last:
  assumes "sessions uid = Some s" and "margin_of rnd (difficulty s) = Some m"
    and "0 \<le> g" and "g \<le> 10"
    and "within_margin rnd g (get_mean (current_anime s)) m"
    and "anime_pool s = []"
  shows "guess rnd rand sessions uid (Some g)
           = Inr (sessions(uid := None),
                  CorrectFinal g (get_mean (current_anime s)) (difficulty s) (score s + 1))"
  using assms by (simp add: guess_def Let_def)

lemma process_correct_last:
  assumes "sessions uid = Some s"
    and "is_correct dir (get_mean (next_anime s)) (get_mean (current_anime s))"
    and "anime_pool s = []"
  shows "process_higher_lower_guess rand sessions uid dir
           = Inr (sessions(uid := None),
                  HLCorrectFinal (score s + 1) (next_anime s) (get_mean (next_anime s)))"
  using assms by (simp add: process_higher_lower_guess_def Let_def)

lemma process_verdict:
  assumes "sessions uid = Some s" and "randint_ok rand"
  shows "\<exists>st r. process_higher_lower_guess rand sessions uid dir = Inr (st, r)
           \<and> hl_verdict r
               = Some (is_correct dir (get_mean (next_anime s)) (get_mean (current_anime s)))"
proof (cases "is_correct dir (get_mean (next_anime s)) (get_mean (current_anime s))")
  case False
  with assms(1) show ?thesis by (simp add: process_higher_lower_guess_def Let_def)
next
  case True
  show ?thesis
  proof (cases "anime_pool s = []")
    case True
    with \<open>is_correct _ _ _\<close> assms(1) show ?thesis
      by (simp add: process_higher_lower_guess_def Let_def)
  next
    case False
    from pop_randint [OF assms(2) False] obtain x ys
      where "pop (anime_pool s) (rand 0 (int (length (anime_pool s)) - 1)) = Some (x, ys)"
      by blast
    with True False assms(1) show ?thesis
      by (simp add: process_higher_lower_guess_def Let_def)
  qed
qed

text \<open>
  Claim C5: in an active Higher/Lower session a turn is answered (no exception). With
  the ratings read from the \<open>mean\<close> fields of the session's current and next anime (0
  for a missing field), the answer to \<open>higher\<close> announces a correct guess exactly when the
  next rating is greater than or equal to the current one, the answer to \<open>lower\<close> exactly
  when it is less than or equal; with equal ratings both answers announce a correct
  guess.
\<close>

theorem higher_lower_verdict:
  assumes "sessions uid = Some s" and "randint_ok rand"
    and "current_rating = (case mean (current_anime s) of None \<Rightarrow> 0 | Some x \<Rightarrow> x)"
    and "next_rating = (case mean (next_anime s) of None \<Rightarrow> 0 | Some x \<Rightarrow> x)"
  shows "(\<exists>st r. process_higher_lower_guess rand sessions uid ''higher'' = Inr (st, r)
            \<and> hl_verdict r = Some (next_rating \<ge> current_rating))
       \<and> (\<exists>st r. process_higher_lower_guess rand sessions uid ''lower'' = Inr (st, r)
            \<and> hl_verdict r = Some (next_rating \<le> current_rating))
       \<and> (next_rating = current_rating \<longrightarrow>
            (\<exists>st r. process_higher_lower_guess rand sessions uid ''higher'' = Inr (st, r)
               \<and> hl_verdict r = Some True)
            \<and> (\<exists>st r. process_higher_lower_guess rand sessions uid ''lower'' = Inr (st, r)
               \<and> hl_verdict r = Some True))"
proof -
  from assms(3,4) have r: "get_mean (current_anime s) = current_rating"
    "get_mean (next_anime s) = next_rating"
    by (simp_all add: get_mean_def)
  from process_verdict [where sessions = sessions and uid = uid, OF assms(1,2), of "''higher''"]
  have h: "\<exists>st r. process_higher_lower_guess rand sessions uid ''higher'' = Inr (st, r)
            \<and> hl_verdict r = Some (next_rating \<ge> current_rating)"
    by (simp add: is_correct_def r)
  from process_verdict [where sessions = sessions and uid = uid, OF assms(1,2), of "''lower''"]
  have l: "\<exists>st r. process_higher_lower_guess rand sessions uid ''lower'' = Inr (st, r)
            \<and> hl_verdict r = Some (next_rating \<le> current_rating)"
    by (simp add: is_correct_def r)
  from h l show ?thesis by auto
qed

lemma py_float_values:
  "py_float (1 / 10) = 3602879701896397 / 36028797018963968"
  "py_float (83 / 10) = 2336242306698445 / 281474976710656"
  "py_float (41 / 5) = 2308094809027379 / 281474976710656"
  "py_float (181 / 25) = 4075757662770299 / 562949953421312"
  by code_simp+

lemma py_float_differences:
  "py_float (3602879701896397 / 36028797018963968)
     = 3602879701896397 / 36028797018963968"
  "py_float (14073748835533 / 140737488355328) = 14073748835533 / 140737488355328"
  "py_float (- (146366987889541 / 562949953421312))
     = - (146366987889541 / 562949953421312)"
  by code_simp+

lemma guess_answers:
  assumes s: "sessions uid = Some s" and m: "margin_of rnd (difficulty s) = Some m"
    and g: "0 \<le> g" "g \<le> 10" and rand: "randint_ok rand"
  shows "\<exists>st r. guess rnd rand sessions uid (Some g) = Inr (st, r)
           \<and> guess_verdict r = Some (\<bar>rnd (g - get_mean (current_anime s))\<bar> \<le> m)"
proof (cases "within_margin rnd g (get_mean (current_anime s)) m")
  case False
  with s m g show ?thesis by (simp add: guess_def Let_def within_margin_def)
next
  case ok: True
  show ?thesis
  proof (cases "anime_pool s = []")
    case True
    with s m g ok show ?thesis by (simp add: guess_def Let_def within_margin_def)
  next
    case False
    from pop_randint [OF rand False] obtain x ys
      where "pop (anime_pool s) (rand 0 (int (length (anime_pool s)) - 1)) = Some (x, ys)"
      by blast
    with s m g ok False show ?thesis by (simp add: guess_def Let_def within_margin_def)
  qed
qed



text \<open>
  Claim C4 says that a guess is judged correct exactly when its absolute difference from
  the actual rating is at most the margin, a guess exactly margin-distant included.
  \<open>guess\<close> judges by the floats (lemma \<open>guess_answers\<close>): in a hard session on an anime
  rated 8.2, the guess 8.3, one tenth away, arrives as the float next to 8.3, the
  difference of the two floats is 0.10000000000000142, more than the float \<open>0.1\<close>, and
  the guess is answered as wrong, which ends the session.
\<close>

theorem boundary_guess_judged_wrong:
  "mean (current_anime (the (hard_round 7))) = Some (py_float (41 / 5))
   \<and> difficulty (the (hard_round 7)) = ''hard''
   \<and> \<bar>83 / 10 - 41 / 5\<bar> \<le> (1 / 10 :: rat)
   \<and> 0 \<le> py_float (83 / 10) \<and> py_float (83 / 10) \<le> 10
   \<and> guess py_float first_index hard_round 7 (Some (py_float (83 / 10)))
       = Inr (hard_round(7 := None),
              Wrong (py_float (83 / 10)) (py_float (41 / 5)) ''hard'' 0)
   \<and> guess_verdict (Wrong (py_float (83 / 10)) (py_float (41 / 5)) ''hard'' 0) = Some False"
  by (simp add: hard_round_def guess_def Let_def margin_of_table within_margin_def
      get_mean_def get_node_def anime_def py_float_values py_float_differences)



lemma get_mean_anime [simp]:
  "get_mean (get_node (anime i m)) = m"
  by (simp add: get_mean_def get_node_def anime_def)

theorem higher_lower_verdict_witness:
  "strict_round 7 = Some \<lparr>current_anime = get_node (anime 1 8), anime_pool = [anime 2 8],
                          score = 1, next_anime = get_node (anime 3 (15 / 2))\<rparr>
   \<and> randint_ok first_index
   \<and> mean (get_node (anime 1 8)) = Some 8
   \<and> mean (get_node (anime 3 (15 / 2))) = Some (15 / 2)
   \<and> (\<exists>st r. process_higher_lower_guess first_index strict_round 7 ''higher'' = Inr (st, r)
         \<and> hl_verdict r = Some False)
   \<and> (\<exists>st r. process_higher_lower_guess first_index strict_round 7 ''lower'' = Inr (st, r)
         \<and> hl_verdict r = Some True)
   \<and> process_higher_lower_guess first_index strict_round 7 ''higher''
       = Inr (strict_round(7 := None),
              HLWrong (get_node (anime 1 8)) 8 (get_node (anime 3 (15 / 2))) (15 / 2) 1)
   \<and> process_higher_lower_guess first_index strict_round 7 ''lower''
       = Inr (strict_round(7 \<mapsto> \<lparr>current_anime = get_node (anime 3 (15 / 2)),
                                    anime_pool = [], score = 2,
                                    next_anime = get_node (anime 2 8)\<rparr>),
              HLCorrect 2 (get_node (anime 3 (15 / 2))) (15 / 2) (get_node (anime 2 8)))
   \<and> tie_round 7 = Some \<lparr>current_anime = get_node (anime 1 8), anime_pool = [],
                         score = 4, next_anime = get_node (anime 2 8)\<rparr>
   \<and> (\<exists>st r. process_higher_lower_guess first_index tie_round 7 ''higher'' = Inr (st, r)
         \<and> hl_verdict r = Some True)
   \<and> (\<exists>st r. process_higher_lower_guess first_index tie_round 7 ''lower'' = Inr (st, r)
         \<and> hl_verdict r = Some True)"
proof -
  have m: "mean (get_node (anime 1 8)) = Some 8" "mean (get_node (anime 2 8)) = Some 8"
    "mean (get_node (anime 3 (15 / 2))) = Some (15 / 2)"
    by (simp_all add: get_node_def anime_def)
  have h: "process_higher_lower_guess first_index strict_round 7 ''higher''
       = Inr (strict_round(7 := None),
              HLWrong (get_node (anime 1 8)) 8 (get_node (anime 3 (15 / 2))) (15 / 2) 1)"
    by (simp add: process_higher_lower_guess_def Let_def strict_round_def is_correct_def)
  have l: "process_higher_lower_guess first_index strict_round 7 ''lower''
       = Inr (strict_round(7 \<mapsto> \<lparr>current_anime = get_node (anime 3 (15 / 2)),
                                    anime_pool = [], score = 2,
                                    next_anime = get_node (anime 2 8)\<rparr>),
              HLCorrect 2 (get_node (anime 3 (15 / 2))) (15 / 2) (get_node (anime 2 8)))"
    by (simp add: process_higher_lower_guess_def Let_def strict_round_def is_correct_def
        first_index_def pop_def)
  show ?thesis
    using higher_lower_verdict [of strict_round 7
        "\<lparr>current_anime = get_node (anime 1 8), anime_pool = [anime 2 8], score = 1,
          next_anime = get_node (anime 3 (15 / 2))\<rparr>" first_index 8 "15 / 2"]
      higher_lower_verdict [of tie_round 7
        "\<lparr>current_anime = get_node (anime 1 8), anime_pool = [], score = 4,
          next_anime = get_node (anime 2 8)\<rparr>" first_index 8 8]
      h l
    by (simp add: m strict_round_def tie_round_def randint_ok_first_index)
qed



lemma fetch_pool_no_upstream:
  "0 < n \<Longrightarrow> fetch_pool no_upstream rt n 0 [] [] = ([], [(rt, min (min n 500) 500, 0)])"
  by (subst fetch_pool.simps) (simp add: no_upstream_def get_top_anime_by_rank_def)

text \<open>
  Claim C10: when the arguments of a start command are valid and the batch loop gathers
  no record (fewer than two for Higher/Lower), the command answers that the game could
  not start and returns the session store it was given, so a session the user had
  survives; the requests issued are those of the loop.
\<close>

theorem failed_start_keeps_store:
  assumes "lower d \<in> set [''easy'', ''medium'', ''hard'']"
    and "1 \<le> limit" and "limit \<le> 2500"
    and "normal_ranking_type rt0 \<in> set valid_types"
    and "fst (fetch_pool api (normal_ranking_type rt0) limit 0 [] []) = []"
    and "2 \<le> limit_value_of hl_limit" and "limit_value_of hl_limit \<le> 2500"
    and "length (fst (fetch_pool api' (normal_ranking_type rt0) (limit_value_of hl_limit)
           0 [] [])) < 2"
  shows "guessgame api rnd rand sessions uid d limit rt0
           = Inr (sessions, CouldNotStart,
                  snd (fetch_pool api (normal_ranking_type rt0) limit 0 [] []))
       \<and> higherlower api' rand hl_sessions uid hl_limit rt0
           = Inr (hl_sessions, HLCouldNotStart,
                  snd (fetch_pool api' (normal_ranking_type rt0) (limit_value_of hl_limit)
                    0 [] []))"
proof -
  have g: "guessgame api rnd rand sessions uid d limit rt0
           = Inr (sessions, CouldNotStart,
                  snd (fetch_pool api (normal_ranking_type rt0) limit 0 [] []))"
    using assms(1-5) by (simp add: guessgame_def Let_def normal_ranking_type_def)
  have h: "higherlower api' rand hl_sessions uid hl_limit rt0
           = Inr (hl_sessions, HLCouldNotStart,
                  snd (fetch_pool api' (normal_ranking_type rt0) (limit_value_of hl_limit)
                    0 [] []))"
    using assms(4,6-8)
    by (simp add: higherlower_def Let_def normal_ranking_type_def limit_value_of_def)
  from g h show ?thesis by simp
qed

theorem failed_start_keeps_store_witness:
  "lower ''Easy'' \<in> set [''easy'', ''medium'', ''hard'']
   \<and> normal_ranking_type ''popularity'' \<in> set valid_types
   \<and> fst (fetch_pool no_upstream (normal_ranking_type ''popularity'') 3 0 [] []) = []
   \<and> limit_value_of None = 500
   \<and> length (fst (fetch_pool (upstream_of [anime 1 8]) (normal_ranking_type ''popularity'')
        (limit_value_of None) 0 [] [])) = 1
   \<and> guessgame no_upstream exact first_index medium_round 7 ''Easy'' 3 ''popularity''
       = Inr (medium_round, CouldNotStart, [(''bypopularity'', 3, 0)])
   \<and> higherlower (upstream_of [anime 1 8]) first_index tie_round 7 None ''popularity''
       = Inr (tie_round, HLCouldNotStart, [(''bypopularity'', 500, 0)])"
proof -
  have l: "lower ''Easy'' = ''easy''" "normal_ranking_type ''popularity'' = ''bypopularity''"
    by code_simp+
  have f: "fetch_pool no_upstream ''bypopularity'' 3 0 [] [] = ([], [(''bypopularity'', 3, 0)])"
    by (simp add: fetch_pool_no_upstream)
  have f': "fetch_pool (upstream_of [anime 1 8]) ''bypopularity'' 500 0 [] []
              = ([anime 1 8], [(''bypopularity'', 500, 0)])"
    by (subst fetch_pool.simps) (simp add: upstream_of_def get_top_anime_by_rank_def)
  have v: "limit_value_of None = 500" by (simp add: limit_value_of_def)
  show ?thesis
    using failed_start_keeps_store [of "''Easy''" 3 "''popularity''" no_upstream None
        "upstream_of [anime 1 8]" exact first_index medium_round 7 tie_round]
    by (simp add: l f f' v valid_types_def)
qed

lemma guessgame_limit_rejected:
  assumes "limit < 1 \<or> limit > 2500"
  shows "guessgame api rnd rand sessions uid d limit rt0
           = Inr (sessions,
                  if lower d \<in> set [''easy'', ''medium'', ''hard''] then LimitOutOfRange
                  else InvalidDifficulty (lower d), [])"
  using assms by (auto simp add: guessgame_def Let_def)

lemma higherlower_limit_rejected:
  assumes "l \<noteq> 0" and "l < 2 \<or> l > 2500"
  shows "higherlower api rand sessions uid (Some l) rt0
           = Inr (sessions,
                  if normal_ranking_type rt0 \<in> set valid_types then HLInvalidLimit (Some l)
                  else HLInvalidRankingType (normal_ranking_type rt0), [])"
  using assms by (auto simp add: higherlower_def Let_def normal_ranking_type_def)

text \<open>
  Claim C8 says that a pool size outside the bounds is rejected before any fetch and
  before any change of the store. \<open>guessgame\<close> does so, and \<open>higherlower\<close> does so for
  every size but one (the two lemmas above): the size 0 passes \<open>if not limit\<close> as if no
  size had been given, so the command fetches 500 records and replaces the session of
  the user.
\<close>

theorem higherlower_zero_limit_starts:
  "higherlower (upstream_of [anime 1 8, anime 2 8]) first_index tie_round 7 (Some 0)
       ''bypopularity''
     = Inr (tie_round(7 \<mapsto> \<lparr>current_anime = get_node (anime 1 8), anime_pool = [],
                               score = 0, next_anime = get_node (anime 2 8)\<rparr>),
            HLStarted (get_node (anime 1 8)) (get_node (anime 2 8)),
            [(''bypopularity'', 500, 0)])"
proof -
  have f: "fetch_pool (upstream_of [anime 1 8, anime 2 8]) ''bypopularity'' 500 0 [] []
              = ([anime 1 8, anime 2 8], [(''bypopularity'', 500, 0)])"
    by (subst fetch_pool.simps) (simp add: upstream_of_def get_top_anime_by_rank_def)
  have l: "lower ''bypopularity'' = ''bypopularity''"
    by code_simp
  show ?thesis
    by (simp add: higherlower_def Let_def l f valid_types_def first_index_def pop_def)
qed

section \<open>The games, over a session's lifetime\<close>

lemma pop_mset:
  assumes "pop xs i = Some (x, ys)"
  shows "mset xs = add_mset x (mset ys)"
proof -
  define j where "j = (if i < 0 then i + int (length xs) else i)"
  from assms have r: "0 \<le> j" "j < int (length xs)"
    and x: "x = xs ! nat j" and ys: "ys = take (nat j) xs @ drop (Suc (nat j)) xs"
    by (auto simp add: pop_def Let_def j_def split: if_splits)
  from r have "nat j < length xs" by simp
  then have "xs = take (nat j) xs @ xs ! nat j # drop (Suc (nat j)) xs"
    by (rule id_take_nth_drop)
  then have "mset xs = mset (take (nat j) xs @ xs ! nat j # drop (Suc (nat j)) xs)"
    by simp
  with x ys show ?thesis by simp
qed

lemma pop_mset_map:
  assumes "pop xs i = Some (x, ys)"
  shows "mset (map f xs) = add_mset (f x) (mset (map f ys))"
  using pop_mset [OF assms] by (metis image_mset_add_mset mset_map)

lemma margin_of_valid:
  assumes "d \<in> set [''easy'', ''medium'', ''hard'']"
  shows "\<exists>m. margin_of rnd d = Some m"
proof -
  from assms consider "d = ''easy''" | "d = ''medium''" | "d = ''hard''" by auto
  then show ?thesis using margin_of_table [of rnd] by cases blast+
qed

lemma guess_step_account:
  assumes s: "sessions uid = Some s" and acc: "guess_account F P s" and rand: "randint_ok rand"
  shows "\<exists>st r. guess rnd rand sessions uid g = Inr (st, r)
           \<and> (case st uid of
                 None \<Rightarrow> drawn_by r = []
               | Some s' \<Rightarrow> guess_account F (P @ drawn_by r) s'
                   \<and> length (anime_pool s') + length (drawn_by r) = length (anime_pool s))"
proof (cases g)
  case None
  with s acc show ?thesis by (simp add: guess_def)
next
  case (Some v)
  from acc have "difficulty s \<in> set [''easy'', ''medium'', ''hard'']"
    by (simp add: guess_account_def)
  from margin_of_valid [OF this] obtain m where m: "margin_of rnd (difficulty s) = Some m"
    by blast
  show ?thesis
  proof (cases "v < 0 \<or> v > 10")
    case True
    with s acc Some show ?thesis by (auto simp add: guess_def)
  next
    case range: False
    show ?thesis
    proof (cases "within_margin rnd v (get_mean (current_anime s)) m")
      case False
      with s Some m range show ?thesis by (simp add: guess_def Let_def)
    next
      case ok: True
      show ?thesis
      proof (cases "anime_pool s = []")
        case True
        with s Some m range ok show ?thesis by (simp add: guess_def Let_def)
      next
        case False
        from pop_randint [OF rand False] obtain x ys
          where p: "pop (anime_pool s) (rand 0 (int (length (anime_pool s)) - 1)) = Some (x, ys)"
          by blast
        from pop_mset_map [OF p, of get_node] acc
        have a: "guess_account F (P @ [get_node x])
                   (s\<lparr>score := score s + 1, anime_pool := ys, current_anime := get_node x\<rparr>)"
          by (simp add: guess_account_def)
        from pop_mset [OF p] have "size (mset (anime_pool s)) = size (add_mset x (mset ys))"
          by simp
        then have l: "length ys + 1 = length (anime_pool s)" by simp
        from s Some m range ok False p a l show ?thesis
          by (simp add: guess_def Let_def)
      qed
    qed
  qed
qed

lemma play_guess_no_session:
  "sessions uid = None \<Longrightarrow> play_guess rnd rand uid gs sessions = Inr (sessions, [])"
  by (induction gs) (simp_all add: guess_no_session)

lemma account_distinct:
  assumes "mset (P @ Q) = mset F" and "distinct F"
  shows "distinct (P @ Q)"
  using assms mset_eq_imp_distinct_iff by blast

lemma play_guess_account:
  assumes "sessions uid = Some s" and "guess_account F P s" and "randint_ok rand"
    and "distinct F"
  shows "\<exists>sessions' drawn. play_guess rnd rand uid gs sessions = Inr (sessions', drawn)
           \<and> distinct (P @ drawn)
           \<and> (case sessions' uid of
                 None \<Rightarrow> True
               | Some s' \<Rightarrow> guess_account F (P @ drawn) s'
                   \<and> length (anime_pool s') + length drawn = length (anime_pool s))"
  using assms(1,2)
proof (induction gs arbitrary: sessions s P)
  case Nil
  from Nil(2) have "mset (P @ map get_node (anime_pool s)) = mset F"
    by (simp add: guess_account_def)
  from account_distinct [OF this assms(4)]
  have "distinct (P @ map get_node (anime_pool s))" .
  with Nil show ?case by simp
next
  case (Cons g gs)
  from guess_step_account [where sessions = sessions and uid = uid, OF Cons.prems assms(3)]
  obtain st r where g: "guess rnd rand sessions uid g = Inr (st, r)"
    and c: "case st uid of
              None \<Rightarrow> drawn_by r = []
            | Some s' \<Rightarrow> guess_account F (P @ drawn_by r) s'
                \<and> length (anime_pool s') + length (drawn_by r) = length (anime_pool s)"
    by blast
  show ?case
  proof (cases "st uid")
    case None
    from Cons.prems(2) have "mset (P @ map get_node (anime_pool s)) = mset F"
      by (simp add: guess_account_def)
    from account_distinct [OF this assms(4)]
    have "distinct (P @ map get_node (anime_pool s))" .
    with None g c show ?thesis by (simp add: play_guess_no_session)
  next
    case (Some s')
    with c have a: "guess_account F (P @ drawn_by r) s'"
      and l: "length (anime_pool s') + length (drawn_by r) = length (anime_pool s)"
      by simp_all
    from Cons.IH [where sessions = st, OF Some a]
    obtain st' drawn where p: "play_guess rnd rand uid gs st = Inr (st', drawn)"
      and d: "distinct ((P @ drawn_by r) @ drawn)"
      and c': "case st' uid of
                 None \<Rightarrow> True
               | Some s'' \<Rightarrow> guess_account F ((P @ drawn_by r) @ drawn) s''
                   \<and> length (anime_pool s'') + length drawn = length (anime_pool s')"
      by blast
    from g p d c' l show ?thesis by (auto split: option.splits)
  qed
qed

lemma process_no_session:
  "sessions uid = None
   \<Longrightarrow> process_higher_lower_guess rand sessions uid dir = Inr (sessions, HLStartGameFirst)"
  by (simp add: process_higher_lower_guess_def)

lemma process_step_account:
  assumes s: "sessions uid = Some s" and acc: "hl_account F P s" and rand: "randint_ok rand"
  shows "\<exists>st r. process_higher_lower_guess rand sessions uid dir = Inr (st, r)
           \<and> (case st uid of
                 None \<Rightarrow> hl_drawn_by r = []
               | Some s' \<Rightarrow> hl_account F (P @ hl_drawn_by r) s'
                   \<and> length (anime_pool s') + length (hl_drawn_by r) = length (anime_pool s))"
proof (cases "is_correct dir (get_mean (next_anime s)) (get_mean (current_anime s))")
  case False
  with s show ?thesis by (simp add: process_higher_lower_guess_def Let_def)
next
  case ok: True
  show ?thesis
  proof (cases "anime_pool s = []")
    case True
    with s ok show ?thesis by (simp add: process_higher_lower_guess_def Let_def)
  next
    case False
    from pop_randint [OF rand False] obtain x ys
      where p: "pop (anime_pool s) (rand 0 (int (length (anime_pool s)) - 1)) = Some (x, ys)"
      by blast
    from acc have P: "P \<noteq> []" by (auto simp add: hl_account_def)
    from pop_mset_map [OF p, of get_node] acc P
    have a: "hl_account F (P @ [get_node x])
               (s\<lparr>score := score s + 1, current_anime := next_anime s,
                  next_anime := get_node x, anime_pool := ys\<rparr>)"
      by (simp add: hl_account_def butlast_append)
    from pop_mset [OF p] have "size (mset (anime_pool s)) = size (add_mset x (mset ys))"
      by simp
    then have l: "length ys + 1 = length (anime_pool s)" by simp
    from s ok False p a l show ?thesis
      by (simp add: process_higher_lower_guess_def Let_def)
  qed
qed

lemma play_higher_lower_no_session:
  "sessions uid = None \<Longrightarrow> play_higher_lower rand uid gs sessions = Inr (sessions, [])"
  by (induction gs) (simp_all add: process_no_session)

lemma play_higher_lower_account:
  assumes "sessions uid = Some s" and "hl_account F P s" and "randint_ok rand"
    and "distinct F"
  shows "\<exists>sessions' drawn. play_higher_lower rand uid gs sessions = Inr (sessions', drawn)
           \<and> distinct (P @ drawn)
           \<and> (case sessions' uid of
                 None \<Rightarrow> True
               | Some s' \<Rightarrow> hl_account F (P @ drawn) s'
                   \<and> length (anime_pool s') + length drawn = length (anime_pool s))"
  using assms(1,2)
proof (induction gs arbitrary: sessions s P)
  case Nil
  from Nil(2) have "mset (P @ map get_node (anime_pool s)) = mset F"
    by (simp add: hl_account_def)
  from account_distinct [OF this assms(4)]
  have "distinct (P @ map get_node (anime_pool s))" .
  with Nil show ?case by simp
next
  case (Cons g gs)
  from process_step_account [where sessions = sessions and uid = uid,
      OF Cons.prems assms(3)]
  obtain st r where g: "process_higher_lower_guess rand sessions uid g = Inr (st, r)"
    and c: "case st uid of
              None \<Rightarrow> hl_drawn_by r = []
            | Some s' \<Rightarrow> hl_account F (P @ hl_drawn_by r) s'
                \<and> length (anime_pool s') + length (hl_drawn_by r) = length (anime_pool s)"
    by blast
  show ?case
  proof (cases "st uid")
    case None
    from Cons.prems(2) have "mset (P @ map get_node (anime_pool s)) = mset F"
      by (simp add: hl_account_def)
    from account_distinct [OF this assms(4)]
    have "distinct (P @ map get_node (anime_pool s))" .
    with None g c show ?thesis by (simp add: play_higher_lower_no_session)
  next
    case (Some s')
    with c have a: "hl_account F (P @ hl_drawn_by r) s'"
      and l: "length (anime_pool s') + length (hl_drawn_by r) = length (anime_pool s)"
      by simp_all
    from Cons.IH [where sessions = st, OF Some a]
    obtain st' drawn where p: "play_higher_lower rand uid gs st = Inr (st', drawn)"
      and d: "distinct ((P @ hl_drawn_by r) @ drawn)"
      and c': "case st' uid of
                 None \<Rightarrow> True
               | Some s'' \<Rightarrow> hl_account F ((P @ hl_drawn_by r) @ drawn) s''
                   \<and> length (anime_pool s'') + length drawn = length (anime_pool s')"
      by blast
    from g p d c' l show ?thesis by (auto split: option.splits)
  qed
qed

lemma guessgame_started:
  assumes "guessgame api rnd rand sessions0 uid d limit rt0
             = Inr (sessions, Started cur m, issued)"
  shows "\<exists>s. sessions uid = Some s
           \<and> guess_account
               (map get_node (fst (fetch_pool api (normal_ranking_type rt0) limit 0 [] [])))
               [cur] s
           \<and> length (anime_pool s) + 1
               = length (fst (fetch_pool api (normal_ranking_type rt0) limit 0 [] []))"
proof -
  let ?all = "fst (fetch_pool api (normal_ranking_type rt0) limit 0 [] [])"
  from assms obtain it pool
    where d: "lower d \<in> set [''easy'', ''medium'', ''hard'']"
      and p: "pop ?all (rand 0 (int (length ?all) - 1)) = Some (it, pool)"
      and st: "sessions = sessions0(uid \<mapsto>
                 \<lparr>current_anime = get_node it, anime_pool = pool, score = 0,
                  difficulty = lower d\<rparr>)"
      and cur: "cur = get_node it"
    by (auto simp add: guessgame_def Let_def normal_ranking_type_def
        split: if_splits option.splits)
  from pop_mset [OF p] have "size (mset ?all) = size (add_mset it (mset pool))" by simp
  then have "length pool + 1 = length ?all" by simp
  with pop_mset_map [OF p, of get_node] d st cur show ?thesis
    by (simp add: guess_account_def)
qed

lemma higherlower_started:
  assumes "higherlower api rand sessions0 uid limit rt0
             = Inr (sessions, HLStarted c n, issued)"
  shows "\<exists>s. sessions uid = Some s
           \<and> hl_account
               (map get_node
                 (fst (fetch_pool api (normal_ranking_type rt0) (limit_value_of limit) 0 [] [])))
               [c, n] s
           \<and> length (anime_pool s) + 2
               = length (fst (fetch_pool api (normal_ranking_type rt0) (limit_value_of limit)
                   0 [] []))"
proof -
  let ?all = "fst (fetch_pool api (normal_ranking_type rt0) (limit_value_of limit) 0 [] [])"
  from assms obtain it1 all1 it2 all2
    where p1: "pop ?all (rand 0 (int (length ?all) - 1)) = Some (it1, all1)"
      and p2: "pop all1 (rand 0 (int (length all1) - 1)) = Some (it2, all2)"
      and st: "sessions = sessions0(uid \<mapsto>
                 \<lparr>current_anime = get_node it1, anime_pool = all2, score = 0,
                  next_anime = get_node it2\<rparr>)"
      and c: "c = get_node it1" and n: "n = get_node it2"
    by (auto simp add: higherlower_def Let_def normal_ranking_type_def limit_value_of_def
        split: if_splits option.splits)
  from pop_mset [OF p1] pop_mset [OF p2]
  have "size (mset ?all) = size (add_mset it1 (add_mset it2 (mset all2)))" by simp
  then have "length all2 + 2 = length ?all" by simp
  with pop_mset_map [OF p1, of get_node] pop_mset_map [OF p2, of get_node] st c n
  show ?thesis
    by (simp add: hl_account_def)
qed

lemma guess_draw_removes_one:
  assumes s: "sessions uid = Some s" and d: "difficulty s \<in> set [''easy'', ''medium'', ''hard'']"
    and rand: "randint_ok rand"
  shows "\<exists>st r. guess rnd rand sessions uid g = Inr (st, r)
           \<and> (case st uid of
                 None \<Rightarrow> drawn_by r = []
               | Some s' \<Rightarrow>
                   length (anime_pool s') + length (drawn_by r) = length (anime_pool s))"
proof -
  from d have "guess_account (current_anime s # map get_node (anime_pool s))
                 [current_anime s] s"
    by (simp add: guess_account_def)
  from guess_step_account [where sessions = sessions and uid = uid and rnd = rnd and g = g,
      OF s this rand]
  obtain st r where g: "guess rnd rand sessions uid g = Inr (st, r)"
    and c: "case st uid of
              None \<Rightarrow> drawn_by r = []
            | Some s' \<Rightarrow>
                guess_account (current_anime s # map get_node (anime_pool s))
                  ([current_anime s] @ drawn_by r) s'
                \<and> length (anime_pool s') + length (drawn_by r) = length (anime_pool s)"
    by blast
  from c have "case st uid of
                 None \<Rightarrow> drawn_by r = []
               | Some s' \<Rightarrow>
                   length (anime_pool s') + length (drawn_by r) = length (anime_pool s)"
    by (cases "st uid") simp_all
  with g show ?thesis by blast
qed

lemma turn_draw_removes_one:
  assumes s: "sessions uid = Some s" and rand: "randint_ok rand"
  shows "\<exists>st r. process_higher_lower_guess rand sessions uid dir = Inr (st, r)
           \<and> (case st uid of
                 None \<Rightarrow> hl_drawn_by r = []
               | Some s' \<Rightarrow>
                   length (anime_pool s') + length (hl_drawn_by r) = length (anime_pool s))"
proof -
  have "hl_account (current_anime s # next_anime s # map get_node (anime_pool s))
          [current_anime s, next_anime s] s"
    by (simp add: hl_account_def)
  from process_step_account [where sessions = sessions and uid = uid and dir = dir,
      OF s this rand]
  obtain st r where g: "process_higher_lower_guess rand sessions uid dir = Inr (st, r)"
    and c: "case st uid of
              None \<Rightarrow> hl_drawn_by r = []
            | Some s' \<Rightarrow>
                hl_account (current_anime s # next_anime s # map get_node (anime_pool s))
                  ([current_anime s, next_anime s] @ hl_drawn_by r) s'
                \<and> length (anime_pool s') + length (hl_drawn_by r) = length (anime_pool s)"
    by blast
  from c have "case st uid of
                 None \<Rightarrow> hl_drawn_by r = []
               | Some s' \<Rightarrow>
                   length (anime_pool s') + length (hl_drawn_by r) = length (anime_pool s)"
    by (cases "st uid") simp_all
  with g show ?thesis by blast
qed

text \<open>
  Claim C6 says, of every session and every sequence of draws, that each draw removes
  exactly one element from the pool, that no record is drawn twice, and that the pool
  never holds the record on display. Every draw does remove one element (the two lemmas
  above), and the source removes it \<open>so same anime doesn't appear twice\<close>; but nothing
  removes a record the upstream sent twice. When the two records gathered at the start are
  the same, the session starts with the record on display still in its pool, and the next
  correct guess draws it again.
\<close>

theorem duplicate_record_drawn_twice:
  "guessgame (upstream_of [anime 1 8, anime 1 8]) exact first_index Map.empty 7 ''easy'' 2
       ''bypopularity''
     = Inr (twice_round, Started (get_node (anime 1 8)) (1 / 2), [(''bypopularity'', 2, 0)])
   \<and> current_anime (the (twice_round 7))
       \<in> set (map get_node (anime_pool (the (twice_round 7))))
   \<and> play_guess exact first_index 7 [Some 8] twice_round
       = Inr (twice_round(7 \<mapsto> \<lparr>current_anime = get_node (anime 1 8), anime_pool = [],
                                  score = 1, difficulty = ''easy''\<rparr>),
              [get_node (anime 1 8)])
   \<and> \<not> distinct [get_node (anime 1 8), get_node (anime 1 8)]"
proof -
  have f: "fetch_pool (upstream_of [anime 1 8, anime 1 8]) ''bypopularity'' 2 0 [] []
              = ([anime 1 8, anime 1 8], [(''bypopularity'', 2, 0)])"
    by (subst fetch_pool.simps, subst fetch_pool.simps)
      (simp add: upstream_of_def get_top_anime_by_rank_def)
  have l: "lower ''easy'' = ''easy''" "lower ''bypopularity'' = ''bypopularity''"
    by code_simp+
  have g: "guessgame (upstream_of [anime 1 8, anime 1 8]) exact first_index Map.empty 7
             ''easy'' 2 ''bypopularity''
           = Inr (twice_round, Started (get_node (anime 1 8)) (1 / 2),
                  [(''bypopularity'', 2, 0)])"
    by (simp add: guessgame_def Let_def l f valid_types_def first_index_def pop_def
        twice_round_def)
  have p: "play_guess exact first_index 7 [Some 8] twice_round
       = Inr (twice_round(7 \<mapsto> \<lparr>current_anime = get_node (anime 1 8), anime_pool = [],
                                  score = 1, difficulty = ''easy''\<rparr>),
              [get_node (anime 1 8)])"
    by (simp add: guess_def Let_def twice_round_def margin_of_table within_margin_def
        exact_def first_index_def pop_def)
  from g p show ?thesis by (simp add: twice_round_def)
qed

text \<open>
  What holds of a game that starts on pairwise distinct records, for any sequence of
  guesses (of turns) of the user: the run raises no exception; the records presented,
  from the opening one on, are pairwise distinct; and while the session lives, its
  current record (and, in Higher/Lower, its next record) is the last one presented, no
  record presented is in the pool, the records of the pool are pairwise distinct, and
  the pool has shrunk by exactly one element for every record presented. In any session
  whose pool is empty, a correct guess (a correct turn) deletes the session.
\<close>

theorem draws_without_replacement:
  assumes "randint_ok rand"
    and "guessgame api rnd rand sessions0 uid d limit rt0
           = Inr (sessions, Started cur m, issued)"
    and "distinct (map get_node
           (fst (fetch_pool api (normal_ranking_type rt0) limit 0 [] [])))"
    and "higherlower api' rand hl_sessions0 uid hl_limit rt1
           = Inr (hl_sessions, HLStarted c n, issued')"
    and "distinct (map get_node
           (fst (fetch_pool api' (normal_ranking_type rt1) (limit_value_of hl_limit) 0 [] [])))"
  shows "(\<exists>sessions' drawn.
            play_guess rnd rand uid gs sessions = Inr (sessions', drawn)
            \<and> distinct (cur # drawn)
            \<and> (case sessions' uid of
                  None \<Rightarrow> True
                | Some s \<Rightarrow>
                    current_anime s = last (cur # drawn)
                    \<and> distinct (cur # drawn @ map get_node (anime_pool s))
                    \<and> length (cur # drawn) + length (anime_pool s)
                        = length (fst (fetch_pool api (normal_ranking_type rt0) limit 0 [] []))))
       \<and> (\<exists>hl_sessions' drawn.
            play_higher_lower rand uid dirs hl_sessions = Inr (hl_sessions', drawn)
            \<and> distinct (c # n # drawn)
            \<and> (case hl_sessions' uid of
                  None \<Rightarrow> True
                | Some s \<Rightarrow>
                    current_anime s = last (butlast (c # n # drawn))
                    \<and> next_anime s = last (c # n # drawn)
                    \<and> distinct (c # n # drawn @ map get_node (anime_pool s))
                    \<and> length (c # n # drawn) + length (anime_pool s)
                        = length (fst (fetch_pool api' (normal_ranking_type rt1)
                            (limit_value_of hl_limit) 0 [] []))))
       \<and> (st uid = Some s' \<and> anime_pool s' = [] \<and> margin_of rnd (difficulty s') = Some m'
            \<and> 0 \<le> g \<and> g \<le> 10 \<and> within_margin rnd g (get_mean (current_anime s')) m'
          \<longrightarrow> (\<exists>r. guess rnd rand st uid (Some g) = Inr (st(uid := None), r)))
       \<and> (hst uid = Some h \<and> anime_pool h = []
            \<and> is_correct dir (get_mean (next_anime h)) (get_mean (current_anime h))
          \<longrightarrow> (\<exists>r. process_higher_lower_guess rand hst uid dir = Inr (hst(uid := None), r)))"
proof -
  let ?F = "map get_node (fst (fetch_pool api (normal_ranking_type rt0) limit 0 [] []))"
  let ?H = "map get_node
    (fst (fetch_pool api' (normal_ranking_type rt1) (limit_value_of hl_limit) 0 [] []))"
  from guessgame_started [OF assms(2)] obtain s
    where s: "sessions uid = Some s" and a: "guess_account ?F [cur] s"
      and l: "length (anime_pool s) + 1 = length ?F"
    by auto
  from play_guess_account [where sessions = sessions and uid = uid and gs = gs and rnd = rnd,
      OF s a assms(1,3)]
  obtain sessions' drawn where p: "play_guess rnd rand uid gs sessions = Inr (sessions', drawn)"
    and d: "distinct ([cur] @ drawn)"
    and c: "case sessions' uid of
              None \<Rightarrow> True
            | Some s' \<Rightarrow> guess_account ?F ([cur] @ drawn) s'
                \<and> length (anime_pool s') + length drawn = length (anime_pool s)"
    by blast
  have c1: "case sessions' uid of
              None \<Rightarrow> True
            | Some s \<Rightarrow>
                current_anime s = last (cur # drawn)
                \<and> distinct (cur # drawn @ map get_node (anime_pool s))
                \<and> length (cur # drawn) + length (anime_pool s) = length ?F"
  proof (cases "sessions' uid")
    case None
    then show ?thesis by simp
  next
    case (Some s2)
    with c have a2: "guess_account ?F ([cur] @ drawn) s2"
      and l2: "length (anime_pool s2) + length drawn = length (anime_pool s)"
      by simp_all
    from a2 have "mset (([cur] @ drawn) @ map get_node (anime_pool s2)) = mset ?F"
      by (simp add: guess_account_def)
    from account_distinct [OF this assms(3)]
    have "distinct (cur # drawn @ map get_node (anime_pool s2))" by simp
    with a2 l2 l Some show ?thesis by (simp add: guess_account_def)
  qed
  from higherlower_started [OF assms(4)] obtain h0
    where h0: "hl_sessions uid = Some h0" and b: "hl_account ?H [c, n] h0"
      and k: "length (anime_pool h0) + 2 = length ?H"
    by auto
  from play_higher_lower_account [where sessions = hl_sessions and uid = uid and gs = dirs,
      OF h0 b assms(1,5)]
  obtain hl_sessions' hdrawn
    where q: "play_higher_lower rand uid dirs hl_sessions = Inr (hl_sessions', hdrawn)"
    and e: "distinct ([c, n] @ hdrawn)"
    and f: "case hl_sessions' uid of
              None \<Rightarrow> True
            | Some s' \<Rightarrow> hl_account ?H ([c, n] @ hdrawn) s'
                \<and> length (anime_pool s') + length hdrawn = length (anime_pool h0)"
    by blast
  have f1: "case hl_sessions' uid of
              None \<Rightarrow> True
            | Some s \<Rightarrow>
                current_anime s = last (butlast (c # n # hdrawn))
                \<and> next_anime s = last (c # n # hdrawn)
                \<and> distinct (c # n # hdrawn @ map get_node (anime_pool s))
                \<and> length (c # n # hdrawn) + length (anime_pool s) = length ?H"
  proof (cases "hl_sessions' uid")
    case None
    then show ?thesis by simp
  next
    case (Some h2)
    with f have b2: "hl_account ?H ([c, n] @ hdrawn) h2"
      and k2: "length (anime_pool h2) + length hdrawn = length (anime_pool h0)"
      by simp_all
    from b2 have "mset (([c, n] @ hdrawn) @ map get_node (anime_pool h2)) = mset ?H"
      by (simp add: hl_account_def)
    from account_distinct [OF this assms(5)]
    have "distinct (c # n # hdrawn @ map get_node (anime_pool h2))" by simp
    with b2 k2 k Some show ?thesis by (simp add: hl_account_def)
  qed
  have g1: "st uid = Some s' \<and> anime_pool s' = [] \<and> margin_of rnd (difficulty s') = Some m'
            \<and> 0 \<le> g \<and> g \<le> 10 \<and> within_margin rnd g (get_mean (current_anime s')) m'
          \<longrightarrow> (\<exists>r. guess rnd rand st uid (Some g) = Inr (st(uid := None), r))"
    using guess_correct_last [where sessions = st and uid = uid and s = s' and m = m'
        and g = g and rnd = rnd and rand = rand]
    by blast
  have g2: "hst uid = Some h \<and> anime_pool h = []
            \<and> is_correct dir (get_mean (next_anime h)) (get_mean (current_anime h))
          \<longrightarrow> (\<exists>r. process_higher_lower_guess rand hst uid dir = Inr (hst(uid := None), r))"
    using process_correct_last [where sessions = hst and uid = uid and s = h and dir = dir
        and rand = rand]
    by blast
  from p d c1 have A: "\<exists>sessions' drawn.
            play_guess rnd rand uid gs sessions = Inr (sessions', drawn)
            \<and> distinct (cur # drawn)
            \<and> (case sessions' uid of
                  None \<Rightarrow> True
                | Some s \<Rightarrow>
                    current_anime s = last (cur # drawn)
                    \<and> distinct (cur # drawn @ map get_node (anime_pool s))
                    \<and> length (cur # drawn) + length (anime_pool s) = length ?F)"
    by (intro exI [of _ sessions'] exI [of _ drawn]) simp
  from q e f1 have B: "\<exists>hl_sessions' drawn.
            play_higher_lower rand uid dirs hl_sessions = Inr (hl_sessions', drawn)
            \<and> distinct (c # n # drawn)
            \<and> (case hl_sessions' uid of
                  None \<Rightarrow> True
                | Some s \<Rightarrow>
                    current_anime s = last (butlast (c # n # drawn))
                    \<and> next_anime s = last (c # n # drawn)
                    \<and> distinct (c # n # drawn @ map get_node (anime_pool s))
                    \<and> length (c # n # drawn) + length (anime_pool s) = length ?H)"
    by (intro exI [of _ hl_sessions'] exI [of _ hdrawn]) simp
  from A B g1 g2 show ?thesis by (simp only: length_map simp_thms)
qed

lemma three_records_fetched:
  "fetch_pool (upstream_of three_records) ''bypopularity'' 3 0 [] []
     = (three_records, [(''bypopularity'', 3, 0)])"
  "fetch_pool (upstream_of three_records) ''bypopularity'' 500 0 [] []
     = (three_records, [(''bypopularity'', 500, 0)])"
  by (subst fetch_pool.simps, subst fetch_pool.simps,
      simp add: upstream_of_def get_top_anime_by_rank_def three_records_def)+

lemma three_records_distinct:
  "distinct (map get_node three_records)"
  by (simp add: three_records_def get_node_def anime_def)

theorem draws_without_replacement_witness:
  "randint_ok first_index
   \<and> guessgame (upstream_of three_records) exact first_index Map.empty 7 ''medium'' 3
         ''popularity''
       = Inr (three_round, Started (get_node (anime 1 8)) (1 / 4), [(''bypopularity'', 3, 0)])
   \<and> distinct (map get_node
         (fst (fetch_pool (upstream_of three_records) (normal_ranking_type ''popularity'') 3 0
            [] [])))
   \<and> higherlower (upstream_of three_records) first_index Map.empty 7 None ''bypopularity''
       = Inr (three_hl_round, HLStarted (get_node (anime 1 8)) (get_node (anime 2 8)),
              [(''bypopularity'', 500, 0)])
   \<and> distinct (map get_node
         (fst (fetch_pool (upstream_of three_records) (normal_ranking_type ''bypopularity'')
            (limit_value_of None) 0 [] [])))
   \<and> play_guess exact first_index 7 [Some 8, Some 8] three_round
       = Inr (Map.empty(7 \<mapsto> \<lparr>current_anime = get_node (anime 3 (15 / 2)),
                                anime_pool = [], score = 2, difficulty = ''medium''\<rparr>),
              [get_node (anime 2 8), get_node (anime 3 (15 / 2))])
   \<and> play_higher_lower first_index 7 [''higher''] three_hl_round
       = Inr (Map.empty(7 \<mapsto> \<lparr>current_anime = get_node (anime 2 8), anime_pool = [],
                                score = 1, next_anime = get_node (anime 3 (15 / 2))\<rparr>),
              [get_node (anime 3 (15 / 2))])
   \<and> distinct [get_node (anime 1 8), get_node (anime 2 8), get_node (anime 3 (15 / 2))]
   \<and> guess exact first_index medium_last 7 (Some (29 / 4))
       = Inr (medium_last(7 := None), CorrectFinal (29 / 4) (15 / 2) ''medium'' 3)
   \<and> process_higher_lower_guess first_index tie_round 7 ''lower''
       = Inr (tie_round(7 := None), HLCorrectFinal 5 (get_node (anime 2 8)) 8)"
proof -
  have l: "lower ''medium'' = ''medium''" "lower ''bypopularity'' = ''bypopularity''"
    "normal_ranking_type ''popularity'' = ''bypopularity''"
    "normal_ranking_type ''bypopularity'' = ''bypopularity''"
    "lower ''popularity'' = ''popularity''"
    by code_simp+
  have v: "limit_value_of None = 500" by (simp add: limit_value_of_def)
  have g: "guessgame (upstream_of three_records) exact first_index Map.empty 7 ''medium'' 3
         ''popularity''
       = Inr (three_round, Started (get_node (anime 1 8)) (1 / 4), [(''bypopularity'', 3, 0)])"
    by (simp add: guessgame_def Let_def l three_records_fetched valid_types_def)
      (simp add: three_records_def first_index_def pop_def three_round_def)
  have h: "higherlower (upstream_of three_records) first_index Map.empty 7 None ''bypopularity''
       = Inr (three_hl_round, HLStarted (get_node (anime 1 8)) (get_node (anime 2 8)),
              [(''bypopularity'', 500, 0)])"
    by (simp add: higherlower_def Let_def l three_records_fetched valid_types_def)
      (simp add: three_records_def first_index_def pop_def three_hl_round_def)
  have p: "play_guess exact first_index 7 [Some 8, Some 8] three_round
       = Inr (Map.empty(7 \<mapsto> \<lparr>current_anime = get_node (anime 3 (15 / 2)),
                                anime_pool = [], score = 2, difficulty = ''medium''\<rparr>),
              [get_node (anime 2 8), get_node (anime 3 (15 / 2))])"
    by (simp add: guess_def Let_def three_round_def margin_of_table within_margin_def
        exact_def first_index_def pop_def)
  have q: "play_higher_lower first_index 7 [''higher''] three_hl_round
       = Inr (Map.empty(7 \<mapsto> \<lparr>current_anime = get_node (anime 2 8), anime_pool = [],
                                score = 1, next_anime = get_node (anime 3 (15 / 2))\<rparr>),
              [get_node (anime 3 (15 / 2))])"
    by (simp add: process_higher_lower_guess_def Let_def three_hl_round_def is_correct_def
        first_index_def pop_def)
  have d: "distinct [get_node (anime 1 8), get_node (anime 2 8), get_node (anime 3 (15 / 2))]"
    using three_records_distinct by (simp add: three_records_def)
  have m: "guess exact first_index medium_last 7 (Some (29 / 4))
       = Inr (medium_last(7 := None), CorrectFinal (29 / 4) (15 / 2) ''medium'' 3)"
    by (simp add: guess_def Let_def medium_last_def margin_of_table within_margin_def exact_def)
  have t: "process_higher_lower_guess first_index tie_round 7 ''lower''
       = Inr (tie_round(7 := None), HLCorrectFinal 5 (get_node (anime 2 8)) 8)"
    by (simp add: process_higher_lower_guess_def Let_def tie_round_def is_correct_def)
  show ?thesis
    using draws_without_replacement [where rand = first_index
        and api = "upstream_of three_records" and rnd = exact and ?sessions0.0 = Map.empty
        and uid = 7 and d = "''medium''" and limit = 3 and ?rt0.0 = "''popularity''"
        and sessions = three_round and cur = "get_node (anime 1 8)" and m = "1 / 4"
        and issued = "[(''bypopularity'', 3, 0)]" and api' = "upstream_of three_records"
        and ?hl_sessions0.0 = Map.empty and hl_limit = None and ?rt1.0 = "''bypopularity''"
        and hl_sessions = three_hl_round and c = "get_node (anime 1 8)"
        and n = "get_node (anime 2 8)" and issued' = "[(''bypopularity'', 500, 0)]"
        and gs = "[Some 8, Some 8]" and dirs = "[''higher'']"]
      randint_ok_first_index g h p q d m t
    by (simp only: l v three_records_fetched fst_conv three_records_distinct simp_thms)
qed

end
